theory Spec2Isabelle
  imports Main
begin

section \<open>Go values: errors, nil and panics\<close>

text \<open>
  The package \<open>gms\<close> keeps local caches of remote (git) repositories. This theory embeds
  its five source files: \<open>git.go\<close> (git client, URL detection, synchronisation),
  \<open>repository.go\<close> (handles and the factory registry), the local repository, the cached
  repository, the repository walker and the repository cache.

  A Go function that may panic returns a \<open>result\<close>: \<open>Panicked msg\<close> when the run-time
  aborts, \<open>Returned v\<close> when the function returns \<open>v\<close>.
\<close>

datatype 'a result = Panicked string | Returned 'a

text \<open>
  \<open>GitError\<close> is the struct \<open>{Output string; Err error}\<close>. The git client hands it out
  by pointer: a value of Go type \<open>*GitError\<close> is a \<open>git_error option\<close>, \<open>None\<close> being the
  nil pointer.
\<close>

record git_error =
  ge_Output :: string
  ge_Err :: string

text \<open>
  A value of the Go interface type \<open>error\<close> is an \<open>error option\<close>: \<open>None\<close> is the nil
  interface, \<open>Some e\<close> an interface value holding the dynamic value \<open>e\<close>. The dynamic
  values that occur in the package are the two sentinel errors, a \<open>*GitError\<close> pointer
  (which may itself be nil: \<open>GitErrorPtr None\<close>), an error of an external collaborator
  (operating system, configuration store, JSON codec) and the aggregate of \<open>Load\<close>.
\<close>

datatype error =
    ErrInvalidGitURL
  | ErrRepoAlreadyExists
  | GitErrorPtr "git_error option"
  | ExternalError string
  | AggregatedError "error list"

text \<open>
  Go converts a \<open>*GitError\<close> to \<open>error\<close> wherever a function whose result type is
  \<open>error\<close> returns an expression of static type \<open>*GitError\<close> (\<open>return err\<close> in \<open>Pull\<close> and
  \<open>Clone\<close>, \<open>return g.Exec(...)\<close> in \<open>LatestCommit\<close>). The conversion wraps the pointer
  in an interface value with dynamic type \<open>*GitError\<close>; that interface value is not the nil
  interface, whether or not the pointer inside is nil. The test \<open>err == nil\<close> on a variable
  of type \<open>error\<close> asks for the nil interface, the test on a variable of type \<open>*GitError\<close>
  for the nil pointer.
\<close>

definition error_of_GitError :: "git_error option \<Rightarrow> error option" where
  "error_of_GitError p = Some (GitErrorPtr p)"

section \<open>Strings\<close>

definition strings_HasPrefix :: "string \<Rightarrow> string \<Rightarrow> bool" where
  "strings_HasPrefix s p = (take (length p) s = p)"

text \<open>\<open>strings.Index\<close>: the index of the first occurrence of \<open>sep\<close>, or \<open>-1\<close>.\<close>

fun strings_Index :: "string \<Rightarrow> string \<Rightarrow> int" where
  "strings_Index [] sep = (if sep = [] then 0 else - 1)"
| "strings_Index (c # cs) sep =
     (if strings_HasPrefix (c # cs) sep then 0
      else (let i = strings_Index cs sep in if i < 0 then - 1 else i + 1))"

text \<open>
  The slice expressions \<open>s[lo:hi]\<close> and \<open>s[lo:]\<close>. Every slice of the package is taken
  at indices that the guards before it put in range, so the out-of-range panic of Go is
  not a branch here.
\<close>

definition slice :: "string \<Rightarrow> int \<Rightarrow> int \<Rightarrow> string" where
  "slice s lo hi = take (nat (hi - lo)) (drop (nat lo) s)"

definition slice_from :: "string \<Rightarrow> int \<Rightarrow> string" where
  "slice_from s lo = drop (nat lo) s"

section \<open>The git client (git.go)\<close>

definition DefaultGitCmd :: string where "DefaultGitCmd = ''git''"
definition GitRepoType :: string where "GitRepoType = ''git''"

text \<open>
  \<open>GitClient\<close> is the interface \<open>Exec(args ...string) (string, *GitError)\<close>. Running git
  reads and changes the world outside the program (the file system, the remote), so a
  client is a function on a world \<open>'w\<close> that returns the output, the \<open>*GitError\<close> pointer
  and the new world. A field of interface type \<open>GitClient\<close> may be nil: \<open>None\<close>.
\<close>

type_synonym 'w git_client = "string list \<Rightarrow> 'w \<Rightarrow> (string \<times> git_error option) \<times> 'w"

record 'w git_work_tree =
  wt_Client :: "'w git_client option"
  wt_WorkDir :: string
  wt_GitDir :: string

definition GitWorkTree_Exec ::
  "'w git_work_tree \<Rightarrow> string list \<Rightarrow> 'w \<Rightarrow> (string \<times> git_error option) result \<times> 'w" where
  "GitWorkTree_Exec g args w =
     (if wt_WorkDir g = [] then (Panicked ''WorkDir is required'', w)
      else
        let argv = (if wt_GitDir g \<noteq> []
                    then [''--work-tree='' @ wt_WorkDir g, ''--git-dir='' @ wt_GitDir g]
                    else [''-C'', wt_WorkDir g])
        in (case wt_Client g of
              None \<Rightarrow> (Panicked ''nil pointer dereference'', w)
            | Some client \<Rightarrow>
                (case client (argv @ args) w of (r, w') \<Rightarrow> (Returned r, w'))))"

text \<open>
  \<open>LatestCommit\<close> has the result type \<open>(string, error)\<close> and returns the two results of
  \<open>Exec\<close>, whose second result has type \<open>*GitError\<close>: the pointer is converted.
\<close>

definition LatestCommit :: "'w git_work_tree \<Rightarrow> 'w \<Rightarrow> (string \<times> error option) result \<times> 'w" where
  "LatestCommit g w =
     (case GitWorkTree_Exec g [''log'', ''-1'', ''--format=%H''] w of
        (Panicked m, w') \<Rightarrow> (Panicked m, w')
      | (Returned (out, err), w') \<Rightarrow> (Returned (out, error_of_GitError err), w'))"

definition Pull :: "'w git_work_tree \<Rightarrow> 'w \<Rightarrow> error option result \<times> 'w" where
  "Pull g w =
     (case GitWorkTree_Exec g [''pull''] w of
        (Panicked m, w') \<Rightarrow> (Panicked m, w')
      | (Returned (out, err), w') \<Rightarrow> (Returned (error_of_GitError err), w'))"

definition PullAndVerify :: "'w git_work_tree \<Rightarrow> 'w \<Rightarrow> (string \<times> error option) result \<times> 'w" where
  "PullAndVerify g w =
     (case Pull g w of
        (Panicked m, w') \<Rightarrow> (Panicked m, w')
      | (Returned (Some err), w') \<Rightarrow> (Returned ([], Some err), w')
      | (Returned None, w') \<Rightarrow> LatestCommit g w')"

text \<open>\<open>Clone\<close> ignores its variadic \<open>args\<close>, as the source does.\<close>

definition Clone :: "'w git_work_tree \<Rightarrow> string \<Rightarrow> 'w \<Rightarrow> error option result \<times> 'w" where
  "Clone g remote w =
     (case GitWorkTree_Exec g [''clone'', remote, wt_WorkDir g] w of
        (Panicked m, w') \<Rightarrow> (Panicked m, w')
      | (Returned (out, err), w') \<Rightarrow> (Returned (error_of_GitError err), w'))"

subsection \<open>GitRepo\<close>

text \<open>
  The five fields with a JSON key are the persisted ones; \<open>Client\<close> carries the tag
  \<open>json:"-"\<close> and is invisible to the codec.
\<close>

record git_fields =
  gr_URL :: string
  gr_Protocol :: string
  gr_RepoName :: string
  gr_Remote :: string
  gr_Path :: string

record 'w git_repo = git_fields +
  gr_Client :: "'w git_client option"

text \<open>
  The loop of \<open>detectPrefixed\<close>, on its local variables \<open>base\<close> and \<open>path\<close>. The three
  branches on \<open>pos\<close> update both variables; the branch \<open>pos == 0\<close> ends in \<open>continue\<close>,
  the other two go on to the probe. The loop returns \<open>Some (base, path)\<close> at the first
  candidate whose probe succeeds (\<open>err == nil\<close> on a \<open>*GitError\<close>: the nil pointer) and
  \<open>None\<close> when \<open>path\<close> is used up. Calling \<open>Exec\<close> on a nil client panics.
\<close>

function detectPrefixed_loop ::
  "'w git_client option \<Rightarrow> string \<Rightarrow> string \<Rightarrow> string \<Rightarrow> 'w \<Rightarrow>
     (string \<times> string) option result \<times> 'w" where
  "detectPrefixed_loop client prefix base path w =
     (if path = [] then (Returned None, w)
      else
        let pos = strings_Index path ''/'';
            base' = (if pos > 0 then base @ slice path 0 pos
                     else if pos = 0 then base @ ''/''
                     else base @ path);
            path' = (if pos > 0 then slice_from path pos
                     else if pos = 0 then slice_from path 1
                     else [])
        in
        if pos = 0 then detectPrefixed_loop client prefix base' path' w
        else
          (case client of
             None \<Rightarrow> (Panicked ''nil pointer dereference'', w)
           | Some exec \<Rightarrow>
               (case exec [''ls-remote'', prefix @ base'] w of
                  ((out, None), w') \<Rightarrow> (Returned (Some (base', path')), w')
                | ((out, Some err), w') \<Rightarrow>
                    detectPrefixed_loop client prefix base' path' w')))"
  by pat_completeness auto
termination
  by (relation "measure (\<lambda>(client, prefix, base, path, w). length path)")
     (auto simp: slice_from_def)

declare detectPrefixed_loop.simps [simp del]

definition detectPrefixed ::
  "'w git_repo \<Rightarrow> string \<Rightarrow> string \<Rightarrow> 'w \<Rightarrow> error option result \<times> 'w git_repo \<times> 'w" where
  "detectPrefixed r prefix path w =
     (case detectPrefixed_loop (gr_Client r) prefix [] path w of
        (Panicked m, w') \<Rightarrow> (Panicked m, r, w')
      | (Returned None, w') \<Rightarrow> (Returned (Some ErrInvalidGitURL), r, w')
      | (Returned (Some (base, rest)), w') \<Rightarrow>
          (Returned None,
           r\<lparr>gr_RepoName := base, gr_Path := rest, gr_Remote := prefix @ base\<rparr>, w'))"

definition Detect :: "'w git_repo \<Rightarrow> 'w \<Rightarrow> error option result \<times> 'w git_repo \<times> 'w" where
  "Detect r w =
     (if gr_URL r = [] then (Panicked ''URL is required'', r, w)
      else
        let url = gr_URL r;
            slashPos = strings_Index url ''/'';
            colonPos = strings_Index url '':'';
            atPos = strings_Index url ''@''
        in
        if atPos > 0 \<and> atPos < colonPos \<and> (slashPos < 0 \<or> colonPos < slashPos) then
          detectPrefixed (r\<lparr>gr_Protocol := ''ssh''\<rparr>)
            (slice url 0 (colonPos + 1)) (slice_from url (colonPos + 1)) w
        else if colonPos > 0 \<and> colonPos < slashPos \<and>
                strings_HasPrefix (slice_from url (colonPos + 1)) ''//'' then
          detectPrefixed (r\<lparr>gr_Protocol := slice url 0 colonPos\<rparr>)
            (slice url 0 (colonPos + 3)) (slice_from url (colonPos + 3)) w
        else if strings_HasPrefix url ''./'' \<or> strings_HasPrefix url ''../'' \<or>
                strings_HasPrefix url ''/'' then
          detectPrefixed (r\<lparr>gr_Protocol := ''file''\<rparr>) (''file'' @ ''://'') url w
        else
          (case detectPrefixed r ''http://'' url w of
             (Panicked m, r1, w1) \<Rightarrow> (Panicked m, r1, w1)
           | (Returned None, r1, w1) \<Rightarrow> (Returned None, r1\<lparr>gr_Protocol := ''http''\<rparr>, w1)
           | (Returned (Some e1), r1, w1) \<Rightarrow>
               (case detectPrefixed r1 ''https://'' url w1 of
                  (Panicked m, r2, w2) \<Rightarrow> (Panicked m, r2, w2)
                | (Returned None, r2, w2) \<Rightarrow> (Returned None, r2\<lparr>gr_Protocol := ''https''\<rparr>, w2)
                | (Returned (Some e2), r2, w2) \<Rightarrow>
                    (case detectPrefixed r2 ''file://'' url w2 of
                       (Panicked m, r3, w3) \<Rightarrow> (Panicked m, r3, w3)
                     | (Returned None, r3, w3) \<Rightarrow>
                         (Returned None, r3\<lparr>gr_Protocol := ''file''\<rparr>, w3)
                     | (Returned (Some e3), r3, w3) \<Rightarrow>
                         (Returned (Some ErrInvalidGitURL), r3, w3)))))"

section \<open>External collaborators\<close>

text \<open>
  The operating system, as far as the package uses it. \<open>os.RemoveAll\<close> changes the world
  (its error is dropped by the caller). \<open>os.Open\<close> of a directory followed by
  \<open>Readdir(1)\<close> until the end gives, for a path in a world, either the error of the
  open or the entries read one by one together with the way the reading ends:
  \<open>None\<close> for \<open>io.EOF\<close>, \<open>Some e\<close> for another error. \<open>filepath.Join\<close> is a function
  of the path elements.
\<close>

record file_info =
  fi_Name :: string
  fi_IsDir :: bool

type_synonym dir_stream = "file_info list \<times> error option"

record 'w os_env =
  os_RemoveAll :: "string \<Rightarrow> 'w \<Rightarrow> 'w"
  os_Open :: "string \<Rightarrow> 'w \<Rightarrow> error + dir_stream"
  filepath_Join :: "string list \<Rightarrow> string"

section \<open>Synchronisation of a git repository (git.go)\<close>

definition GitRepo_BasePath :: "'w git_repo \<Rightarrow> string" where
  "GitRepo_BasePath r = gr_Path r"

text \<open>
  \<open>Sync\<close> has the named result \<open>err error\<close>. Both tests, \<open>err == nil\<close> after
  \<open>LatestCommit\<close> and \<open>err != nil\<close> before the removal, are tests of that interface
  variable.
\<close>

definition GitRepo_Sync ::
  "'w os_env \<Rightarrow> 'w git_repo \<Rightarrow> string \<Rightarrow> 'w \<Rightarrow> error option result \<times> 'w" where
  "GitRepo_Sync os r dir w =
     (let git = \<lparr>wt_Client = gr_Client r, wt_WorkDir = dir, wt_GitDir = []\<rparr> in
      case LatestCommit git w of
        (Panicked m, w1) \<Rightarrow> (Panicked m, w1)
      | (Returned (commit, err), w1) \<Rightarrow>
          (case (if err = None
                 then (case PullAndVerify git w1 of
                         (Panicked m, w2) \<Rightarrow> (Panicked m, w2)
                       | (Returned (commit', err'), w2) \<Rightarrow> (Returned err', w2))
                 else (Returned err, w1)) of
             (Panicked m, w2) \<Rightarrow> (Panicked m, w2)
           | (Returned None, w2) \<Rightarrow> (Returned None, w2)
           | (Returned (Some e), w2) \<Rightarrow>
               Clone git (gr_Remote r) (os_RemoveAll os (wt_WorkDir git) w2)))"

section \<open>Repositories and persistent handles (repository.go)\<close>

record persistent_handle =
  ph_Type :: string
  ph_Opaque :: string

definition LocalRepoType :: string where "LocalRepoType = ''local''"

record local_repo =
  lr_BaseDir :: string
  lr_Path :: string

text \<open>
  \<open>CachedRepo.Remote\<close> has the interface type \<open>RemoteRepo\<close> (\<open>Repository\<close> with
  \<open>Sync(dir string) error\<close>). \<open>GitRepo\<close> is the one type of the package with that
  method, so the field holds a git repository; a nil interface in that field is not
  modelled.
\<close>

record 'w cached_repo =
  cr_Name :: string
  cr_Remote :: "'w git_repo"
  cr_LocalDir :: string

text \<open>The types of the package that have the methods \<open>BasePath\<close> and \<open>Persist\<close>.\<close>

datatype 'w repository =
    LocalRepo local_repo
  | GitRepo "'w git_repo"
  | CachedRepo "'w cached_repo"

text \<open>The type assertion \<open>repo.(RemoteRepo)\<close>.\<close>

fun as_RemoteRepo :: "'w repository \<Rightarrow> 'w git_repo option" where
  "as_RemoteRepo (GitRepo g) = Some g"
| "as_RemoteRepo (LocalRepo l) = None"
| "as_RemoteRepo (CachedRepo c) = None"

text \<open>
  \<open>encoding/json\<close> on the structs of the package. \<open>Persist\<close> drops the error of
  \<open>json.Marshal\<close>, so marshalling is the function to the bytes that \<open>encoded\<close> then
  holds. \<open>json.Unmarshal\<close> fills the struct it is given and returns an error or nil.
  For \<open>GitRepo\<close> the codec sees the five tagged fields only. \<open>range_Repos\<close> is the
  order in which a \<open>range\<close> statement runs over a map of handles, which Go leaves open.
\<close>

record cache_config =
  cc_Repos :: "(string \<rightharpoonup> persistent_handle) option"

record json_env =
  json_Marshal_LocalRepo :: "local_repo \<Rightarrow> string"
  json_Unmarshal_LocalRepo :: "string \<Rightarrow> local_repo \<Rightarrow> local_repo \<times> error option"
  json_Marshal_GitRepo :: "git_fields \<Rightarrow> string"
  json_Unmarshal_GitRepo :: "string \<Rightarrow> git_fields \<Rightarrow> git_fields \<times> error option"
  json_Marshal_CacheConfig :: "cache_config \<Rightarrow> error + string"
  json_Decode_CacheConfig :: "string \<Rightarrow> error + cache_config"
  range_Repos :: "(string \<rightharpoonup> persistent_handle) \<Rightarrow> (string \<times> persistent_handle) list"

definition LocalRepo_BasePath :: "'w os_env \<Rightarrow> local_repo \<Rightarrow> string" where
  "LocalRepo_BasePath os r = filepath_Join os [lr_BaseDir r, lr_Path r]"


definition GitRepo_Persist :: "json_env \<Rightarrow> 'w git_repo \<Rightarrow> persistent_handle" where
  "GitRepo_Persist js r =
     \<lparr>ph_Type = GitRepoType, ph_Opaque = json_Marshal_GitRepo js (git_fields.truncate r)\<rparr>"

text \<open>
  A factory returns a \<open>Repository\<close> (nil: \<open>None\<close>) and an error. After the type test
  both factories return the freshly allocated struct together with whatever
  \<open>json.Unmarshal\<close> returns, error or not.
\<close>

type_synonym 'w repo_factory = "persistent_handle \<Rightarrow> 'w repository option \<times> error option"

definition LocalRepoFactory :: "json_env \<Rightarrow> 'w repo_factory" where
  "LocalRepoFactory js h =
     (if ph_Type h \<noteq> LocalRepoType then (None, None)
      else
        (case json_Unmarshal_LocalRepo js (ph_Opaque h) \<lparr>lr_BaseDir = [], lr_Path = []\<rparr> of
           (r, err) \<Rightarrow> (Some (LocalRepo r), err)))"

definition GitRepoFactory :: "json_env \<Rightarrow> 'w repo_factory" where
  "GitRepoFactory js h =
     (if ph_Type h \<noteq> GitRepoType then (None, None)
      else
        (case json_Unmarshal_GitRepo js (ph_Opaque h)
                \<lparr>gr_URL = [], gr_Protocol = [], gr_RepoName = [], gr_Remote = [],
                 gr_Path = []\<rparr> of
           (f, err) \<Rightarrow>
             (Some (GitRepo \<lparr>gr_URL = gr_URL f, gr_Protocol = gr_Protocol f,
                             gr_RepoName = gr_RepoName f, gr_Remote = gr_Remote f,
                             gr_Path = gr_Path f, gr_Client = None\<rparr>), err)))"

text \<open>The registry \<open>RepoFactories\<close>, with the two entries of its initialiser.\<close>

definition RepoFactories :: "json_env \<Rightarrow> string \<Rightarrow> 'w repo_factory option" where
  "RepoFactories js = [GitRepoType \<mapsto> GitRepoFactory js, LocalRepoType \<mapsto> LocalRepoFactory js]"

subsection \<open>CachedRepo\<close>

definition CachedRepo_BasePath :: "'w os_env \<Rightarrow> 'w cached_repo \<Rightarrow> string" where
  "CachedRepo_BasePath os r = filepath_Join os [cr_LocalDir r, GitRepo_BasePath (cr_Remote r)]"

definition CachedRepo_Persist :: "json_env \<Rightarrow> 'w cached_repo \<Rightarrow> persistent_handle" where
  "CachedRepo_Persist js r = GitRepo_Persist js (cr_Remote r)"

definition CachedRepo_Sync :: "'w os_env \<Rightarrow> 'w cached_repo \<Rightarrow> 'w \<Rightarrow> error option result \<times> 'w" where
  "CachedRepo_Sync os r w = GitRepo_Sync os (cr_Remote r) (cr_LocalDir r) w"

fun BasePath :: "'w os_env \<Rightarrow> 'w repository \<Rightarrow> string" where
  "BasePath os (LocalRepo r) = LocalRepo_BasePath os r"
| "BasePath os (GitRepo r) = GitRepo_BasePath r"
| "BasePath os (CachedRepo r) = CachedRepo_BasePath os r"


section \<open>The repository cache\<close>

definition CacheConfFile :: string where "CacheConfFile = ''repos.conf''"
definition CacheReposDir :: string where "CacheReposDir = ''repos''"

text \<open>
  The file store of \<open>clix.go/conf\<close>, by the path it was made for: \<open>Read\<close> gives the
  content of the file or an error; \<open>Write\<close> opens a writer or fails, the writer's
  \<open>Write\<close> may fail, \<open>Commit\<close> and \<open>Close\<close> return nothing that the package reads.
\<close>

record 'w store_env =
  conf_Read :: "string \<Rightarrow> 'w \<Rightarrow> error + string"
  conf_Write :: "string \<Rightarrow> 'w \<Rightarrow> error option \<times> 'w"
  writer_Write :: "string \<Rightarrow> string \<Rightarrow> 'w \<Rightarrow> error option \<times> 'w"
  writer_Commit :: "string \<Rightarrow> bool \<Rightarrow> 'w \<Rightarrow> 'w"
  writer_Close :: "string \<Rightarrow> 'w \<Rightarrow> 'w"

text \<open>
  Modelled from the spec: \<open>clix.AggregatedError\<close>, a type of the library \<open>clix.go\<close>
  whose source is not part of the package. The spec has \<open>Load\<close> collect the factory
  errors and return the aggregate, where the empty aggregate is success: \<open>Add\<close> appends
  an error that is not nil and tells whether it did, \<open>Aggregate\<close> is nil when nothing
  was added.
\<close>

definition AggregatedError_Add :: "error list \<Rightarrow> error option \<Rightarrow> bool \<times> error list" where
  "AggregatedError_Add errs err =
     (case err of None \<Rightarrow> (False, errs) | Some e \<Rightarrow> (True, errs @ [e]))"

definition AggregatedError_Aggregate :: "error list \<Rightarrow> error option" where
  "AggregatedError_Aggregate errs = (if errs = [] then None else Some (AggregatedError errs))"

text \<open>
  \<open>RepoCache\<close>. The field \<open>repos\<close> is a Go map, nil (\<open>None\<close>) until something makes
  it. Reading a nil map finds nothing and \<open>delete\<close> on it does nothing; assigning to an
  entry of a nil map panics.
\<close>

record 'w repo_cache =
  rc_BaseDir :: string
  rc_repos :: "(string \<rightharpoonup> 'w cached_repo) option"

definition repos_lookup :: "'w repo_cache \<Rightarrow> string \<Rightarrow> 'w cached_repo option" where
  "repos_lookup c name = (case rc_repos c of None \<Rightarrow> None | Some m \<Rightarrow> m name)"

text \<open>The body of the loop of \<open>Load\<close>, run over the entries in the order of the \<open>range\<close>.\<close>

fun Load_loop ::
  "'w os_env \<Rightarrow> json_env \<Rightarrow> string \<Rightarrow> (string \<times> persistent_handle) list \<Rightarrow>
     (string \<rightharpoonup> 'w cached_repo) \<Rightarrow> error list \<Rightarrow> (string \<rightharpoonup> 'w cached_repo) \<times> error list" where
  "Load_loop os js baseDir [] repos errs = (repos, errs)"
| "Load_loop os js baseDir ((name, h) # rest) repos errs =
     (case RepoFactories js (ph_Type h) of
        None \<Rightarrow> Load_loop os js baseDir rest repos errs
      | Some f \<Rightarrow>
          (case f h of (repo, err) \<Rightarrow>
             (case AggregatedError_Add errs err of (added, errs') \<Rightarrow>
                if added then Load_loop os js baseDir rest repos errs'
                else
                  (case repo of
                     None \<Rightarrow> Load_loop os js baseDir rest repos errs'
                   | Some rp \<Rightarrow>
                       (case as_RemoteRepo rp of
                          None \<Rightarrow> Load_loop os js baseDir rest repos errs'
                        | Some remote \<Rightarrow>
                            Load_loop os js baseDir rest
                              (repos(name \<mapsto>
                                 \<lparr>cr_Name = name, cr_Remote = remote,
                                  cr_LocalDir = filepath_Join os [baseDir, CacheReposDir, name]\<rparr>))
                              errs')))))"

definition Load ::
  "'w os_env \<Rightarrow> json_env \<Rightarrow> 'w store_env \<Rightarrow> 'w repo_cache \<Rightarrow> 'w \<Rightarrow> error option \<times> 'w repo_cache" where
  "Load os js st c w =
     (case conf_Read st (filepath_Join os [rc_BaseDir c, CacheConfFile]) w of
        Inl e \<Rightarrow> (Some e, c)
      | Inr content \<Rightarrow>
          (case json_Decode_CacheConfig js content of
             Inl e \<Rightarrow> (Some e, c)
           | Inr cfg \<Rightarrow>
               (let repos0 = (case rc_repos c of None \<Rightarrow> Map.empty | Some m \<Rightarrow> m) in
                case cc_Repos cfg of
                  None \<Rightarrow> (None, c\<lparr>rc_repos := Some repos0\<rparr>)
                | Some handles \<Rightarrow>
                    (case Load_loop os js (rc_BaseDir c) (range_Repos js handles) repos0 [] of
                       (repos', errs) \<Rightarrow>
                         (AggregatedError_Aggregate errs, c\<lparr>rc_repos := Some repos'\<rparr>)))))"

text \<open>
  \<open>Save\<close> reads the map and writes the file; it does not change the cache. Its loop
  fills \<open>cfg.Repos\<close> with the handle of every entry.
\<close>

definition Save ::
  "'w os_env \<Rightarrow> json_env \<Rightarrow> 'w store_env \<Rightarrow> 'w repo_cache \<Rightarrow> 'w \<Rightarrow> error option \<times> 'w" where
  "Save os js st c w =
     (let cfg = \<lparr>cc_Repos = Some (\<lambda>name. map_option (CachedRepo_Persist js) (repos_lookup c name))\<rparr>;
          file = filepath_Join os [rc_BaseDir c, CacheConfFile]
      in
      case json_Marshal_CacheConfig js cfg of
        Inl err \<Rightarrow> (Some err, w)
      | Inr encoded \<Rightarrow>
          (case conf_Write st file w of
             (Some err, w1) \<Rightarrow> (Some err, w1)
           | (None, w1) \<Rightarrow>
               (case writer_Write st file encoded w1 of
                  (Some err, w2) \<Rightarrow> (Some err, writer_Close st file w2)
                | (None, w2) \<Rightarrow>
                    (None, writer_Close st file (writer_Commit st file True w2)))))"

definition Add ::
  "'w os_env \<Rightarrow> json_env \<Rightarrow> 'w store_env \<Rightarrow> 'w repo_cache \<Rightarrow> string \<Rightarrow> 'w git_repo \<Rightarrow> 'w \<Rightarrow>
     ('w cached_repo option \<times> error option) result \<times> 'w repo_cache \<times> 'w" where
  "Add os js st c name repo w =
     (case repos_lookup c name of
        Some r \<Rightarrow> (Returned (Some r, Some ErrRepoAlreadyExists), c, w)
      | None \<Rightarrow>
          (let cachedRepo =
                 \<lparr>cr_Name = name, cr_Remote = repo,
                  cr_LocalDir = filepath_Join os [rc_BaseDir c, CacheReposDir, name]\<rparr>
           in
           case rc_repos c of
             None \<Rightarrow> (Panicked ''assignment to entry in nil map'', c, w)
           | Some m \<Rightarrow>
               (let c1 = c\<lparr>rc_repos := Some (m(name \<mapsto> cachedRepo))\<rparr> in
                case Save os js st c1 w of
                  (Some err, w') \<Rightarrow>
                    (Returned (None, Some err),
                     c1\<lparr>rc_repos := Some ((m(name \<mapsto> cachedRepo))(name := None))\<rparr>, w')
                | (None, w') \<Rightarrow> (Returned (Some cachedRepo, None), c1, w'))))"

definition Remove ::
  "'w os_env \<Rightarrow> json_env \<Rightarrow> 'w store_env \<Rightarrow> 'w repo_cache \<Rightarrow> string \<Rightarrow> 'w \<Rightarrow>
     error option \<times> 'w repo_cache \<times> 'w" where
  "Remove os js st c name w =
     (case rc_repos c of
        None \<Rightarrow> (None, c, w)
      | Some m \<Rightarrow>
          (case m name of
             None \<Rightarrow> (None, c, w)
           | Some r \<Rightarrow>
               (let c1 = c\<lparr>rc_repos := Some (m(name := None))\<rparr> in
                case Save os js st c1 w of
                  (Some err, w') \<Rightarrow>
                    (Some err, c1\<lparr>rc_repos := Some ((m(name := None))(name \<mapsto> r))\<rparr>, w')
                | (None, w') \<Rightarrow> (None, c1, w'))))"

definition Find :: "'w repo_cache \<Rightarrow> string \<Rightarrow> 'w cached_repo option" where
  "Find c name = repos_lookup c name"

section \<open>The repository walker\<close>

record 'w walking_item =
  wi_RepoName :: string
  wi_Repo :: "'w repository"
  wi_Path :: string
  wi_Name :: string
  wi_FileInfo :: file_info

text \<open>
  The walker function and the filters are Go closures: they read and change state of
  their own, which is part of the world here. A filter receives a pointer to the item,
  so it returns the item as it has left it, beside its two results. The function field
  \<open>WalkerFn\<close> is taken to be set.
\<close>

type_synonym 'w walker_fn = "'w walking_item \<Rightarrow> 'w \<Rightarrow> error option \<times> 'w"

type_synonym 'w walker_filter =
  "'w walking_item \<Rightarrow> 'w \<Rightarrow> ((bool \<times> error option) \<times> 'w walking_item) \<times> 'w"

record 'w repo_walker =
  rw_WalkerFn :: "'w walker_fn"
  rw_PathPrefix :: string
  rw_Filters :: "'w walker_filter list"
  rw_BreadthFirst :: bool

text \<open>
  The recursion of \<open>visit\<close> follows the directory tree and ends when the tree does.
  The file system of the model is a function of paths with no such bound, so \<open>visit\<close>
  carries fuel, one unit for every level of nesting: \<open>OutOfFuel\<close> says that the fuel
  given was less than the depth of the tree, \<open>Done err\<close> is the return of \<open>err\<close>.
\<close>

datatype walk_result = OutOfFuel | Done "error option"

text \<open>The inner loop over \<open>w.Filters\<close>, with what it leaves in \<open>skip\<close> and \<open>item\<close>.\<close>

datatype 'w filter_verdict = Accepted "'w walking_item" | Rejected | Failed error

fun run_filters ::
  "'w walker_filter list \<Rightarrow> 'w walking_item \<Rightarrow> 'w \<Rightarrow> 'w filter_verdict \<times> 'w" where
  "run_filters [] item w = (Accepted item, w)"
| "run_filters (f # rest) item w =
     (case f item w of
        (((accepted, Some e), item'), w') \<Rightarrow> (Failed e, w')
      | (((accepted, None), item'), w') \<Rightarrow>
          (if \<not> accepted then (Rejected, w') else run_filters rest item' w'))"

definition fullPath :: "'w repo_walker \<Rightarrow> string \<Rightarrow> string" where
  "fullPath wk basePath =
     (if rw_PathPrefix wk \<noteq> [] then rw_PathPrefix wk @ basePath else basePath)"

text \<open>The last loop of \<open>visit\<close>, over the directories put aside; \<open>rec\<close> is \<open>w.visit\<close>.\<close>

fun visit_dirs ::
  "(string \<Rightarrow> 'w \<Rightarrow> walk_result \<times> 'w) \<Rightarrow> 'w os_env \<Rightarrow> string \<Rightarrow> string list \<Rightarrow> 'w \<Rightarrow>
     walk_result \<times> 'w" where
  "visit_dirs rec os basePath [] w = (Done None, w)"
| "visit_dirs rec os basePath (dir # dirs) w =
     (case rec (filepath_Join os [basePath, dir]) w of
        (Done None, w') \<Rightarrow> visit_dirs rec os basePath dirs w'
      | (r, w') \<Rightarrow> (r, w'))"

text \<open>
  The loop that reads the directory, over the entries still to come and the way the
  reading ends; \<open>dirs\<close> is the local variable of that name.
\<close>

fun visit_entries ::
  "(string \<Rightarrow> 'w \<Rightarrow> walk_result \<times> 'w) \<Rightarrow> 'w os_env \<Rightarrow> 'w repo_walker \<Rightarrow> string \<Rightarrow> string \<Rightarrow>
     'w repository \<Rightarrow> file_info list \<Rightarrow> error option \<Rightarrow> string list \<Rightarrow> 'w \<Rightarrow>
     walk_result \<times> 'w" where
  "visit_entries rec os wk basePath name repo [] ending dirs w =
     (case ending of
        Some e \<Rightarrow> (Done (Some e), w)
      | None \<Rightarrow> visit_dirs rec os basePath dirs w)"
| "visit_entries rec os wk basePath name repo (fi # rest) ending dirs w =
     (let item = \<lparr>wi_RepoName = name, wi_Repo = repo, wi_Path = basePath,
                  wi_Name = fi_Name fi, wi_FileInfo = fi\<rparr>
      in
      case run_filters (rw_Filters wk) item w of
        (Failed e, w1) \<Rightarrow> (Done (Some e), w1)
      | (Rejected, w1) \<Rightarrow> visit_entries rec os wk basePath name repo rest ending dirs w1
      | (Accepted item', w1) \<Rightarrow>
          (case rw_WalkerFn wk item' w1 of
             (Some err, w2) \<Rightarrow> (Done (Some err), w2)
           | (None, w2) \<Rightarrow>
               (if fi_IsDir fi then
                  (if rw_BreadthFirst wk then
                     visit_entries rec os wk basePath name repo rest ending
                       (dirs @ [fi_Name fi]) w2
                   else
                     (case rec (filepath_Join os [basePath, fi_Name fi]) w2 of
                        (Done None, w3) \<Rightarrow>
                          visit_entries rec os wk basePath name repo rest ending dirs w3
                      | (r, w3) \<Rightarrow> (r, w3)))
                else visit_entries rec os wk basePath name repo rest ending dirs w2)))"

primrec visit ::
  "nat \<Rightarrow> 'w os_env \<Rightarrow> 'w repo_walker \<Rightarrow> string \<Rightarrow> string \<Rightarrow> 'w repository \<Rightarrow> 'w \<Rightarrow>
     walk_result \<times> 'w" where
  "visit 0 os wk basePath name repo w = (OutOfFuel, w)"
| "visit (Suc fuel) os wk basePath name repo w =
     (case os_Open os (fullPath wk basePath) w of
        Inl err \<Rightarrow> (Done (Some err), w)
      | Inr (entries, ending) \<Rightarrow>
          visit_entries (\<lambda>p. visit fuel os wk p name repo) os wk basePath name repo
            entries ending [] w)"

definition Visit ::
  "nat \<Rightarrow> 'w os_env \<Rightarrow> 'w repo_walker \<Rightarrow> string \<Rightarrow> 'w repository \<Rightarrow> 'w \<Rightarrow> walk_result \<times> 'w" where
  "Visit fuel os wk name repo w = visit fuel os wk (BasePath os repo) name repo w"


section \<open>Notions used to state the properties\<close>

subsection \<open>Loading\<close>

text \<open>
  What \<open>Load\<close> is to make of one persisted handle, by its type tag. The error of the
  entry is the error of unmarshalling its text, for the two registered types, and none
  for any other type. The entry resolves to a remote repository when it is a git entry
  whose text unmarshals without error; the repository is the struct that was filled,
  with no client.
\<close>

definition entry_error :: "json_env \<Rightarrow> persistent_handle \<Rightarrow> error option" where
  "entry_error js h =
     (if ph_Type h = GitRepoType then
        snd (json_Unmarshal_GitRepo js (ph_Opaque h)
               \<lparr>gr_URL = [], gr_Protocol = [], gr_RepoName = [], gr_Remote = [], gr_Path = []\<rparr>)
      else if ph_Type h = LocalRepoType then
        snd (json_Unmarshal_LocalRepo js (ph_Opaque h) \<lparr>lr_BaseDir = [], lr_Path = []\<rparr>)
      else None)"

definition entry_remote :: "json_env \<Rightarrow> persistent_handle \<Rightarrow> 'w git_repo option" where
  "entry_remote js h =
     (if ph_Type h = GitRepoType then
        (case json_Unmarshal_GitRepo js (ph_Opaque h)
                \<lparr>gr_URL = [], gr_Protocol = [], gr_RepoName = [], gr_Remote = [], gr_Path = []\<rparr> of
           (f, None) \<Rightarrow>
             Some \<lparr>gr_URL = gr_URL f, gr_Protocol = gr_Protocol f, gr_RepoName = gr_RepoName f,
                   gr_Remote = gr_Remote f, gr_Path = gr_Path f, gr_Client = None\<rparr>
         | (f, Some e) \<Rightarrow> None)
      else None)"

text \<open>
  The map that the claim about \<open>Load\<close> describes: every name of the configuration
  whose handle resolves to a remote repository holds the cached repository made for it,
  every other name holds what it held before.
\<close>

definition loaded_repos ::
  "'w os_env \<Rightarrow> json_env \<Rightarrow> string \<Rightarrow> (string \<rightharpoonup> persistent_handle) \<Rightarrow>
     (string \<rightharpoonup> 'w cached_repo) \<Rightarrow> (string \<rightharpoonup> 'w cached_repo)" where
  "loaded_repos os js baseDir handles repos0 =
     (\<lambda>name. case handles name of
        None \<Rightarrow> repos0 name
      | Some h \<Rightarrow>
          (case entry_remote js h of
             None \<Rightarrow> repos0 name
           | Some remote \<Rightarrow>
               Some \<lparr>cr_Name = name, cr_Remote = remote,
                     cr_LocalDir = filepath_Join os [baseDir, CacheReposDir, name]\<rparr>))"

subsection \<open>Observing a walk\<close>

text \<open>
  The examples and the statements about a walk observe it through the world: a world is
  the list of the actions taken so far. \<open>record_visit\<close> is a walker function that notes
  the \<open>Path\<close> and the \<open>Name\<close> of the item it is called with.
\<close>

datatype action = RanGit "string list" | RemovedAll string | Visited string string

definition record_visit :: "action list walker_fn" where
  "record_visit item w = (None, w @ [Visited (wi_Path item) (wi_Name item)])"

text \<open>Filters that decide and do nothing else: they leave the item and the world alone.\<close>

definition pure_filters :: "'w walker_filter list \<Rightarrow> bool" where
  "pure_filters fs = (\<forall>f \<in> set fs. \<forall>item w. \<exists>accepted e. f item w = (((accepted, e), item), w))"

text \<open>The path reached from \<open>base\<close> by joining the names of directories, one after another.\<close>

definition descend :: "'w os_env \<Rightarrow> string \<Rightarrow> string list \<Rightarrow> string" where
  "descend os base names = foldl (\<lambda>p n. filepath_Join os [p, n]) base names"

text \<open>
  The reading of the claim about \<open>WalkingItem.Path\<close>: \<open>p\<close> expresses the directory \<open>dir\<close>
  relative to \<open>base\<close> when joining it to \<open>base\<close> gives \<open>dir\<close>.
\<close>

definition path_relative_to_base :: "'w os_env \<Rightarrow> string \<Rightarrow> string \<Rightarrow> string \<Rightarrow> bool" where
  "path_relative_to_base os base dir p = (filepath_Join os [base, p] = dir)"




section \<open>Example environments\<close>

text \<open>
  The environments of the examples. \<open>example_Join\<close> joins the elements that are not
  empty with a separator; on elements that are clean paths (no empty, \<open>.\<close> or \<open>..\<close>
  component, no separator at the end) that is what \<open>filepath.Join\<close> returns.
\<close>

fun join_slash :: "string list \<Rightarrow> string" where
  "join_slash [] = []"
| "join_slash [e] = e"
| "join_slash (e # es) = e @ ''/'' @ join_slash es"

definition example_Join :: "string list \<Rightarrow> string" where
  "example_Join elem = join_slash (filter (\<lambda>e. e \<noteq> []) elem)"

definition dir_entry :: "string \<Rightarrow> file_info" where
  "dir_entry n = \<lparr>fi_Name = n, fi_IsDir = True\<rparr>"

definition file_entry :: "string \<Rightarrow> file_info" where
  "file_entry n = \<lparr>fi_Name = n, fi_IsDir = False\<rparr>"

text \<open>
  A directory tree that does not change: \<open>/site\<close> holds the directories \<open>docs\<close> and
  \<open>img\<close>, \<open>/site/docs\<close> the directory \<open>guide\<close>, \<open>/site/docs/guide\<close> the file
  \<open>intro.md\<close> and \<open>/site/img\<close> the file \<open>logo.png\<close>.
\<close>

definition example_tree :: "string \<Rightarrow> action list \<Rightarrow> error + dir_stream" where
  "example_tree path w =
     (if path = ''/site'' then Inr ([dir_entry ''docs'', dir_entry ''img''], None)
      else if path = ''/site/docs'' then Inr ([dir_entry ''guide''], None)
      else if path = ''/site/docs/guide'' then Inr ([file_entry ''intro.md''], None)
      else if path = ''/site/img'' then Inr ([file_entry ''logo.png''], None)
      else Inl (ExternalError ''no such file or directory''))"

definition example_os :: "action list os_env" where
  "example_os =
     \<lparr>os_RemoveAll = (\<lambda>dir w. w @ [RemovedAll dir]),
      os_Open = example_tree,
      filepath_Join = example_Join\<rparr>"

definition recording_walker :: "bool \<Rightarrow> action list repo_walker" where
  "recording_walker breadthFirst =
     \<lparr>rw_WalkerFn = record_visit, rw_PathPrefix = [], rw_Filters = [],
      rw_BreadthFirst = breadthFirst\<rparr>"



text \<open>Two git clients: one whose every command succeeds, one that knows a single remote.\<close>

definition git_all_ok :: "action list git_client" where
  "git_all_ok args w = ((''4f2a9c1'', None), w @ [RanGit args])"

definition git_one_remote :: "action list git_client" where
  "git_one_remote args w =
     (([], if args = [''ls-remote'', ''git@example.com:group/project.git''] then None
           else Some \<lparr>ge_Output = ''fatal: Could not read from remote repository.'',
                       ge_Err = ''exit status 128''\<rparr>),
      w @ [RanGit args])"

definition example_git_fields :: git_fields where
  "example_git_fields =
     \<lparr>gr_URL = ''https://example.com/group/project/docs'', gr_Protocol = ''https'',
      gr_RepoName = ''example.com/group/project'',
      gr_Remote = ''https://example.com/group/project'', gr_Path = ''/docs''\<rparr>"

definition example_git_repo :: "action list git_client option \<Rightarrow> action list git_repo" where
  "example_git_repo client =
     \<lparr>gr_URL = ''https://example.com/group/project/docs'', gr_Protocol = ''https'',
      gr_RepoName = ''example.com/group/project'',
      gr_Remote = ''https://example.com/group/project'', gr_Path = ''/docs'',
      gr_Client = client\<rparr>"

definition example_local_repo :: local_repo where
  "example_local_repo = \<lparr>lr_BaseDir = ''/site'', lr_Path = ''docs''\<rparr>"

text \<open>
  A codec that stands in for \<open>encoding/json\<close> on the values of the examples: it writes
  the fields between the keys of the struct tags, which is the output of \<open>json.Marshal\<close>
  for strings that need no escaping, and reads back the two texts of the examples.
\<close>

definition example_local_json :: string where
  \<open>example_local_json = ''{"base":"/site","path":"docs"}''\<close>

definition example_git_json :: string where
  \<open>example_git_json =
     ''{"url":"https://example.com/group/project/docs","protocol":"https",'' @
     ''"name":"example.com/group/project","remote":"https://example.com/group/project",'' @
     ''"path":"/docs"}''\<close>

definition example_Marshal_LocalRepo :: "local_repo \<Rightarrow> string" where
  \<open>example_Marshal_LocalRepo r =
     ''{"base":"'' @ lr_BaseDir r @ ''","path":"'' @ lr_Path r @ ''"}''\<close>

definition example_Marshal_GitRepo :: "git_fields \<Rightarrow> string" where
  \<open>example_Marshal_GitRepo r =
     ''{"url":"'' @ gr_URL r @ ''","protocol":"'' @ gr_Protocol r @
     ''","name":"'' @ gr_RepoName r @ ''","remote":"'' @ gr_Remote r @
     ''","path":"'' @ gr_Path r @ ''"}''\<close>

definition example_Unmarshal_LocalRepo :: "string \<Rightarrow> local_repo \<Rightarrow> local_repo \<times> error option" where
  "example_Unmarshal_LocalRepo text r =
     (if text = example_local_json then (example_local_repo, None)
      else (r, Some (ExternalError ''unexpected end of JSON input'')))"

definition example_Unmarshal_GitRepo :: "string \<Rightarrow> git_fields \<Rightarrow> git_fields \<times> error option" where
  "example_Unmarshal_GitRepo text r =
     (if text = example_git_json then (example_git_fields, None)
      else (r, Some (ExternalError ''unexpected end of JSON input'')))"

text \<open>
  A configuration with four entries: a git repository, a local repository, an entry of
  a type that has no factory and a git entry whose text does not parse.
\<close>

definition example_entries :: "(string \<times> persistent_handle) list" where
  "example_entries =
     [(''site'', \<lparr>ph_Type = ''git'', ph_Opaque = example_git_json\<rparr>),
      (''notes'', \<lparr>ph_Type = ''local'', ph_Opaque = example_local_json\<rparr>),
      (''old'', \<lparr>ph_Type = ''svn'', ph_Opaque = ''{}''\<rparr>),
      (''bad'', \<lparr>ph_Type = ''git'', ph_Opaque = ''{''\<rparr>)]"

definition example_json :: json_env where
  "example_json =
     \<lparr>json_Marshal_LocalRepo = example_Marshal_LocalRepo,
      json_Unmarshal_LocalRepo = example_Unmarshal_LocalRepo,
      json_Marshal_GitRepo = example_Marshal_GitRepo,
      json_Unmarshal_GitRepo = example_Unmarshal_GitRepo,
      json_Marshal_CacheConfig = (\<lambda>cfg. Inr ''{}''),
      json_Decode_CacheConfig =
        (\<lambda>content. if content = ''four entries''
                    then Inr \<lparr>cc_Repos = Some (map_of example_entries)\<rparr>
                    else Inl (ExternalError ''unexpected end of JSON input'')),
      range_Repos = (\<lambda>handles. example_entries)\<rparr>"

text \<open>A store that can be read and refuses every write.\<close>

definition readonly_store :: "action list store_env" where
  "readonly_store =
     \<lparr>conf_Read = (\<lambda>path w. if path = ''/cache/repos.conf'' then Inr ''four entries''
                              else Inl (ExternalError ''no such file or directory'')),
      conf_Write = (\<lambda>path w. (Some (ExternalError ''read-only file system''), w)),
      writer_Write = (\<lambda>path bytes w. (Some (ExternalError ''read-only file system''), w)),
      writer_Commit = (\<lambda>path ok w. w),
      writer_Close = (\<lambda>path w. w)\<rparr>"

definition example_cached_repo :: "action list cached_repo" where
  "example_cached_repo =
     \<lparr>cr_Name = ''site'', cr_Remote = example_git_repo None,
      cr_LocalDir = ''/cache/repos/site''\<rparr>"

text \<open>
  \<open>json.Marshal\<close> writes a string as UTF-8 text: a byte that is not part of a valid
  UTF-8 sequence is replaced by the replacement character U+FFFD, the bytes
  \<open>EF BF BD\<close>, and no error is returned. The byte \<open>FF\<close> occurs in no UTF-8 sequence.
  \<open>json_coerce\<close> is that replacement for the byte \<open>FF\<close>. The codec below writes the
  fields of a local repository through it, between the keys of the struct tags, and
  reads them back from between the quotes: on fields that need no escaping it is
  \<open>encoding/json\<close>, with the replacement included.
\<close>

definition json_coerce :: "string \<Rightarrow> string" where
  "json_coerce s =
     concat (map (\<lambda>c. if c = CHR 0xFF then [CHR 0xEF, CHR 0xBF, CHR 0xBD] else [c]) s)"

fun strip_prefix :: "string \<Rightarrow> string \<Rightarrow> string option" where
  "strip_prefix [] s = Some s"
| "strip_prefix (p # ps) [] = None"
| "strip_prefix (p # ps) (c # cs) = (if p = c then strip_prefix ps cs else None)"

definition coercing_Marshal_LocalRepo :: "local_repo \<Rightarrow> string" where
  \<open>coercing_Marshal_LocalRepo r =
     ''{"base":"'' @ json_coerce (lr_BaseDir r) @ ''","path":"'' @ json_coerce (lr_Path r) @ ''"}''\<close>

definition coercing_Unmarshal_LocalRepo :: "string \<Rightarrow> local_repo \<Rightarrow> local_repo \<times> error option" where
  \<open>coercing_Unmarshal_LocalRepo text r =
     (case strip_prefix ''{"base":"'' text of
        None \<Rightarrow> (r, Some (ExternalError ''invalid character''))
      | Some t1 \<Rightarrow>
          (case strip_prefix ''","path":"'' (dropWhile (\<lambda>c. c \<noteq> CHR 0x22) t1) of
             None \<Rightarrow> (r, Some (ExternalError ''invalid character''))
           | Some t2 \<Rightarrow>
               (if dropWhile (\<lambda>c. c \<noteq> CHR 0x22) t2 = ''"}''
                then (\<lparr>lr_BaseDir = takeWhile (\<lambda>c. c \<noteq> CHR 0x22) t1,
                       lr_Path = takeWhile (\<lambda>c. c \<noteq> CHR 0x22) t2\<rparr>, None)
                else (r, Some (ExternalError ''invalid character'')))))\<close>

definition coercing_json :: json_env where
  "coercing_json =
     example_json\<lparr>json_Marshal_LocalRepo := coercing_Marshal_LocalRepo,
                  json_Unmarshal_LocalRepo := coercing_Unmarshal_LocalRepo\<rparr>"

section \<open>Properties of the git repository\<close>

subsection \<open>Synchronisation\<close>

text \<open>
  The error that \<open>LatestCommit\<close>, \<open>Pull\<close> and \<open>Clone\<close> return is never the nil interface:
  each converts the \<open>*GitError\<close> of \<open>Exec\<close>, nil or not, to \<open>error\<close>.
\<close>

lemma LatestCommit_error_not_nil:
  "LatestCommit g w = (Returned (commit, err), w') \<Longrightarrow> err \<noteq> None"
  by (auto simp: LatestCommit_def error_of_GitError_def split: prod.splits result.splits)

lemma Clone_error_not_nil: "Clone g remote w = (Returned err, w') \<Longrightarrow> err \<noteq> None"
  by (auto simp: Clone_def error_of_GitError_def split: prod.splits result.splits)

text \<open>
  So \<open>Sync\<close> takes one path whatever git answers: the test \<open>err == nil\<close> after
  \<open>LatestCommit\<close> fails, \<open>PullAndVerify\<close> is not called, the directory is removed and
  the remote is cloned, and the result is the converted \<open>*GitError\<close> of the clone.
\<close>

lemma GitRepo_Sync_one_path:
  assumes "dir \<noteq> []" and "gr_Client r = Some client"
  shows "GitRepo_Sync os r dir w =
     (case client [''-C'', dir, ''log'', ''-1'', ''--format=%H''] w of
        ((commit, err1), w1) \<Rightarrow>
          (case client [''-C'', dir, ''clone'', gr_Remote r, dir] (os_RemoveAll os dir w1) of
             ((out, err2), w2) \<Rightarrow> (Returned (Some (GitErrorPtr err2)), w2)))"
  using assms
  by (simp add: GitRepo_Sync_def LatestCommit_def Clone_def GitWorkTree_Exec_def
      error_of_GitError_def split: prod.splits)

text \<open>
  Claim C1: \<open>Sync\<close> probes the directory with \<open>LatestCommit\<close>; if the probe succeeds it
  runs \<open>PullAndVerify\<close>; only if one of the two fails it removes the directory and
  clones, returning the error of the clone, if any.

  The code does not do that. With a client whose every command succeeds (the directory
  is a valid working tree, the remote is reachable) \<open>Sync\<close> runs \<open>git log\<close>, never runs
  \<open>git pull\<close>, removes the directory, clones, and returns an error that is not nil
  (the interface around the nil \<open>*GitError\<close> of the successful clone).
\<close>

theorem C1_Sync_reclones_valid_working_tree:
  "GitRepo_Sync example_os (example_git_repo (Some git_all_ok)) ''/cache/repos/site'' [] =
     (Returned (Some (GitErrorPtr None)),
      [RanGit [''-C'', ''/cache/repos/site'', ''log'', ''-1'', ''--format=%H''],
       RemovedAll ''/cache/repos/site'',
       RanGit [''-C'', ''/cache/repos/site'', ''clone'', ''https://example.com/group/project'',
               ''/cache/repos/site'']])"
  by (simp add: GitRepo_Sync_def LatestCommit_def Clone_def GitWorkTree_Exec_def
      error_of_GitError_def example_os_def example_git_repo_def git_all_ok_def)

subsection \<open>URL detection\<close>

lemma detect_scp_indices:
  "strings_Index ''git@example.com:group/project.git/sub/dir'' ''/'' = 21"
  "strings_Index ''git@example.com:group/project.git/sub/dir'' '':'' = 15"
  "strings_Index ''git@example.com:group/project.git/sub/dir'' ''@'' = 3"
  by (simp_all add: strings_HasPrefix_def)

lemma detect_scp_loop:
  assumes rejects: "\<forall>w. snd (fst (client [''ls-remote'', ''git@example.com:group''] w)) \<noteq> None"
      and accepts: "\<forall>w. snd (fst (client [''ls-remote'', ''git@example.com:group/project.git''] w))
                          = None"
  shows "detectPrefixed_loop (Some client) ''git@example.com:'' [] ''group/project.git/sub/dir'' w =
     (Returned (Some (''group/project.git'', ''/sub/dir'')),
      snd (client [''ls-remote'', ''git@example.com:group/project.git'']
             (snd (client [''ls-remote'', ''git@example.com:group''] w))))"
proof -
  obtain o1 e1 w1
    where c1: "client [''ls-remote'', ''git@example.com:group''] w = ((o1, Some e1), w1)"
    using rejects[rule_format, of w]
    by (cases "client [''ls-remote'', ''git@example.com:group''] w") auto
  obtain o2 w2
    where c2: "client [''ls-remote'', ''git@example.com:group/project.git''] w1 = ((o2, None), w2)"
    using accepts[rule_format, of w1]
    by (cases "client [''ls-remote'', ''git@example.com:group/project.git''] w1") auto
  have s1: "detectPrefixed_loop (Some client) ''git@example.com:'' [] ''group/project.git/sub/dir'' w
      = detectPrefixed_loop (Some client) ''git@example.com:'' ''group'' ''/project.git/sub/dir'' w1"
    by (subst detectPrefixed_loop.simps)
       (simp add: strings_HasPrefix_def slice_def slice_from_def c1)
  have s2: "detectPrefixed_loop (Some client) ''git@example.com:'' ''group'' ''/project.git/sub/dir'' w1
      = detectPrefixed_loop (Some client) ''git@example.com:'' ''group/'' ''project.git/sub/dir'' w1"
    by (subst detectPrefixed_loop.simps)
       (simp add: strings_HasPrefix_def slice_def slice_from_def)
  have s3: "detectPrefixed_loop (Some client) ''git@example.com:'' ''group/'' ''project.git/sub/dir'' w1
      = (Returned (Some (''group/project.git'', ''/sub/dir'')), w2)"
    by (subst detectPrefixed_loop.simps)
       (simp add: strings_HasPrefix_def slice_def slice_from_def c2)
  show ?thesis using s1 s2 s3 c1 c2 by simp
qed

text \<open>
  Claim C2: for the URL \<open>git@example.com:group/project.git/sub/dir\<close> and a client
  whose probe rejects the shorter candidate \<open>group\<close> and accepts \<open>group/project.git\<close>,
  \<open>Detect\<close> takes the SCP-like branch, sets the protocol \<open>ssh\<close> and returns without
  error with \<open>RepoName = group/project.git\<close>, \<open>Path = /sub/dir\<close> and \<open>Remote\<close> the
  prefix \<open>git@example.com:\<close> followed by the repository name. The probes run are the two
  of the hypotheses, in that order.
\<close>

theorem C2_Detect_scp_like:
  assumes url: "gr_URL r = ''git@example.com:group/project.git/sub/dir''"
      and bound: "gr_Client r = Some client"
      and rejects: "\<forall>w. snd (fst (client [''ls-remote'', ''git@example.com:group''] w)) \<noteq> None"
      and accepts: "\<forall>w. snd (fst (client [''ls-remote'', ''git@example.com:group/project.git''] w))
                          = None"
  shows "Detect r w =
     (Returned None,
      r\<lparr>gr_Protocol := ''ssh'', gr_RepoName := ''group/project.git'', gr_Path := ''/sub/dir'',
        gr_Remote := ''git@example.com:'' @ ''group/project.git''\<rparr>,
      snd (client [''ls-remote'', ''git@example.com:group/project.git'']
             (snd (client [''ls-remote'', ''git@example.com:group''] w))))"
proof -
  have prefix:
    "slice ''git@example.com:group/project.git/sub/dir'' 0 (15 + 1) = ''git@example.com:''"
    by (simp add: slice_def)
  have rest:
    "slice_from ''git@example.com:group/project.git/sub/dir'' (15 + 1)
       = ''group/project.git/sub/dir''"
    by (simp add: slice_from_def)
  have "Detect r w =
      detectPrefixed (r\<lparr>gr_Protocol := ''ssh''\<rparr>) ''git@example.com:''
        ''group/project.git/sub/dir'' w"
    unfolding Detect_def Let_def url detect_scp_indices prefix rest by simp
  then show ?thesis
    by (simp add: detectPrefixed_def bound detect_scp_loop[OF rejects accepts])
qed

theorem C2_Detect_scp_like_witness:
  "Detect \<lparr>gr_URL = ''git@example.com:group/project.git/sub/dir'', gr_Protocol = [],
           gr_RepoName = [], gr_Remote = [], gr_Path = [], gr_Client = Some git_one_remote\<rparr> [] =
     (Returned None,
      \<lparr>gr_URL = ''git@example.com:group/project.git/sub/dir'', gr_Protocol = ''ssh'',
       gr_RepoName = ''group/project.git'', gr_Remote = ''git@example.com:group/project.git'',
       gr_Path = ''/sub/dir'', gr_Client = Some git_one_remote\<rparr>,
      [RanGit [''ls-remote'', ''git@example.com:group''],
       RanGit [''ls-remote'', ''git@example.com:group/project.git'']])"
proof -
  let ?r = "\<lparr>gr_URL = ''git@example.com:group/project.git/sub/dir'', gr_Protocol = [],
              gr_RepoName = [], gr_Remote = [], gr_Path = [], gr_Client = Some git_one_remote\<rparr>"
  have url: "gr_URL ?r = ''git@example.com:group/project.git/sub/dir''" by simp
  have bound: "gr_Client ?r = Some git_one_remote" by simp
  have rejects:
    "\<forall>w. snd (fst (git_one_remote [''ls-remote'', ''git@example.com:group''] w)) \<noteq> None"
    by (simp add: git_one_remote_def)
  have accepts:
    "\<forall>w. snd (fst (git_one_remote [''ls-remote'', ''git@example.com:group/project.git''] w))
          = None"
    by (simp add: git_one_remote_def)
  show ?thesis
    using C2_Detect_scp_like[OF url bound rejects accepts, of "[]"]
    by (simp add: git_one_remote_def)
qed

section \<open>Properties of handles and of the cache\<close>

subsection \<open>Round trip through a handle\<close>




text \<open>
  The hypothesis is met by more than the examples: the codec with the replacement
  gives back every local repository whose fields hold neither the byte \<open>FF\<close> nor a
  quote.
\<close>

lemma json_coerce_valid: "CHR 0xFF \<notin> set s \<Longrightarrow> json_coerce s = s"
  by (induction s) (auto simp: json_coerce_def)

lemma coercing_codec_roundtrip:
  assumes "CHR 0xFF \<notin> set (lr_BaseDir l)" and "CHR 0xFF \<notin> set (lr_Path l)"
      and "CHR 0x22 \<notin> set (lr_BaseDir l)" and "CHR 0x22 \<notin> set (lr_Path l)"
  shows "json_Unmarshal_LocalRepo coercing_json (json_Marshal_LocalRepo coercing_json l)
           \<lparr>lr_BaseDir = [], lr_Path = []\<rparr> = (l, None)"
proof -
  let ?q = "\<lambda>c. c \<noteq> CHR 0x22"
  have b: "\<And>x. x \<in> set (lr_BaseDir l) \<Longrightarrow> ?q x" and p: "\<And>x. x \<in> set (lr_Path l) \<Longrightarrow> ?q x"
    using assms by auto
  have tb: "takeWhile ?q (lr_BaseDir l @ CHR 0x22 # rest) = lr_BaseDir l"
    and db: "dropWhile ?q (lr_BaseDir l @ CHR 0x22 # rest) = CHR 0x22 # rest" for rest
    using b by (simp_all add: takeWhile_append2 dropWhile_append2)
  have tp: "takeWhile ?q (lr_Path l @ CHR 0x22 # rest) = lr_Path l"
    and dp: "dropWhile ?q (lr_Path l @ CHR 0x22 # rest) = CHR 0x22 # rest" for rest
    using p by (simp_all add: takeWhile_append2 dropWhile_append2)
  show ?thesis
    using assms
    by (simp add: coercing_json_def coercing_Marshal_LocalRepo_def
        coercing_Unmarshal_LocalRepo_def json_coerce_valid tb db tp dp)
qed


subsection \<open>Add and Remove\<close>

text \<open>
  Claim C5: when \<open>name\<close> is present, \<open>Add\<close> returns the entry found together with
  \<open>ErrRepoAlreadyExists\<close>; the cache and the world are what they were, so nothing was
  inserted and nothing was saved.
\<close>

theorem C5_Add_existing_name:
  assumes "repos_lookup c name = Some r"
  shows "Add os js st c name repo w = (Returned (Some r, Some ErrRepoAlreadyExists), c, w)"
  using assms by (simp add: Add_def)

theorem C5_Add_existing_name_witness:
  "Add example_os example_json readonly_store
     \<lparr>rc_BaseDir = ''/cache'', rc_repos = Some [''site'' \<mapsto> example_cached_repo]\<rparr>
     ''site'' (example_git_repo (Some git_all_ok)) [] =
   (Returned (Some example_cached_repo, Some ErrRepoAlreadyExists),
    \<lparr>rc_BaseDir = ''/cache'', rc_repos = Some [''site'' \<mapsto> example_cached_repo]\<rparr>, [])"
proof -
  have "repos_lookup
      \<lparr>rc_BaseDir = ''/cache'', rc_repos = Some [''site'' \<mapsto> example_cached_repo]\<rparr> ''site''
      = Some example_cached_repo"
    by (simp add: repos_lookup_def)
  from C5_Add_existing_name[OF this] show ?thesis .
qed

text \<open>
  Claim C4: \<open>Add\<close> and \<open>Remove\<close> are all-or-nothing on the map. If the \<open>Save\<close> that
  follows the insertion fails, \<open>Add\<close> returns that error with the cache as it was before
  the call; if the \<open>Save\<close> that follows the deletion fails, \<open>Remove\<close> returns that error
  with the cache as it was; and whenever \<open>Add\<close> or \<open>Remove\<close> returns an error at all,
  the cache is the one of before the call.
\<close>

theorem C4_Add_Remove_rollback:
  "(rc_repos c = Some m \<and> m name = None \<and>
      Save os js st
        (c\<lparr>rc_repos := Some (m(name \<mapsto>
            \<lparr>cr_Name = name, cr_Remote = repo,
             cr_LocalDir = filepath_Join os [rc_BaseDir c, CacheReposDir, name]\<rparr>))\<rparr>) w
        = (Some err, w')
      \<longrightarrow> Add os js st c name repo w = (Returned (None, Some err), c, w'))
   \<and> (rc_repos c = Some m \<and> m name = Some r \<and>
      Save os js st (c\<lparr>rc_repos := Some (m(name := None))\<rparr>) w = (Some err, w')
      \<longrightarrow> Remove os js st c name w = (Some err, c, w'))
   \<and> (Add os js st c name repo w = (Returned (x, Some err), c', w') \<longrightarrow> c' = c)
   \<and> (Remove os js st c name w = (Some err, c', w') \<longrightarrow> c' = c)"
proof (intro conjI impI)
  assume a: "rc_repos c = Some m \<and> m name = None \<and>
      Save os js st
        (c\<lparr>rc_repos := Some (m(name \<mapsto>
            \<lparr>cr_Name = name, cr_Remote = repo,
             cr_LocalDir = filepath_Join os [rc_BaseDir c, CacheReposDir, name]\<rparr>))\<rparr>) w
        = (Some err, w')"
  then have "m(name := None) = m" by auto
  with a show "Add os js st c name repo w = (Returned (None, Some err), c, w')"
    by (simp add: Add_def repos_lookup_def Let_def)
next
  assume a: "rc_repos c = Some m \<and> m name = Some r \<and>
      Save os js st (c\<lparr>rc_repos := Some (m(name := None))\<rparr>) w = (Some err, w')"
  then have "m(name \<mapsto> r) = m" by auto
  with a show "Remove os js st c name w = (Some err, c, w')"
    by (simp add: Remove_def Let_def)
next
  assume "Add os js st c name repo w = (Returned (x, Some err), c', w')"
  then show "c' = c"
    by (auto simp: Add_def repos_lookup_def Let_def fun_upd_idem
        split: option.splits prod.splits)
next
  assume "Remove os js st c name w = (Some err, c', w')"
  then show "c' = c"
    by (auto simp: Remove_def Let_def fun_upd_idem split: option.splits prod.splits)
qed

lemma readonly_store_Save:
  "Save example_os example_json readonly_store c w
     = (Some (ExternalError ''read-only file system''), w)"
  by (simp add: Save_def example_json_def readonly_store_def)

theorem C4_Add_Remove_rollback_witness:
  "Add example_os example_json readonly_store
     \<lparr>rc_BaseDir = ''/cache'', rc_repos = Some Map.empty\<rparr>
     ''site'' (example_git_repo None) [] =
   (Returned (None, Some (ExternalError ''read-only file system'')),
    \<lparr>rc_BaseDir = ''/cache'', rc_repos = Some Map.empty\<rparr>, [])
   \<and> Remove example_os example_json readonly_store
     \<lparr>rc_BaseDir = ''/cache'', rc_repos = Some [''site'' \<mapsto> example_cached_repo]\<rparr>
     ''site'' [] =
   (Some (ExternalError ''read-only file system''),
    \<lparr>rc_BaseDir = ''/cache'', rc_repos = Some [''site'' \<mapsto> example_cached_repo]\<rparr>, [])"
  using
    C4_Add_Remove_rollback[of "\<lparr>rc_BaseDir = ''/cache'', rc_repos = Some Map.empty\<rparr>"
      Map.empty "''site''" example_os example_json readonly_store "example_git_repo None" "[]"
      "ExternalError ''read-only file system''" "[]"]
    C4_Add_Remove_rollback[of
      "\<lparr>rc_BaseDir = ''/cache'', rc_repos = Some [''site'' \<mapsto> example_cached_repo]\<rparr>"
      "[''site'' \<mapsto> example_cached_repo]" "''site''" example_os example_json readonly_store
      "example_git_repo None" "[]" "ExternalError ''read-only file system''" "[]"
      example_cached_repo]
  by (simp add: readonly_store_Save)

text \<open>
  Claim C10: on a cache whose map was never made (a \<open>RepoCache\<close> as constructed, before
  any \<open>Load\<close>), \<open>Add\<close> does not return: it panics at the assignment to the nil map, for
  every name. \<open>Remove\<close> leaves the nil map as it is. \<open>Load\<close> is what makes the map: once it
  has read and decoded the configuration the map is not nil, errors of single entries
  or not, while a \<open>Load\<close> that cannot read the file leaves the cache as it was. On a
  cache whose map has been made, \<open>Add\<close> returns.
\<close>

theorem C10_Add_nil_map_panics:
  assumes "rc_repos c = None"
  shows "Add os js st c name repo w = (Panicked ''assignment to entry in nil map'', c, w)
       \<and> Remove os js st c name w = (None, c, w)
       \<and> (\<forall>content cfg.
             conf_Read st (filepath_Join os [rc_BaseDir c, CacheConfFile]) w = Inr content \<and>
             json_Decode_CacheConfig js content = Inr cfg \<longrightarrow>
             rc_repos (snd (Load os js st c w)) \<noteq> None)
       \<and> (\<forall>e. conf_Read st (filepath_Join os [rc_BaseDir c, CacheConfFile]) w = Inl e \<longrightarrow>
             Load os js st c w = (Some e, c))
       \<and> (\<forall>m. rc_repos c2 = Some m \<longrightarrow>
             (\<exists>ret. fst (Add os js st c2 name repo w) = Returned ret))"
  using assms
  by (auto simp: Add_def Remove_def repos_lookup_def Load_def Let_def
      split: option.splits prod.splits)

theorem C10_Add_nil_map_panics_witness:
  "Add example_os example_json readonly_store \<lparr>rc_BaseDir = ''/cache'', rc_repos = None\<rparr>
     ''site'' (example_git_repo None) [] =
   (Panicked ''assignment to entry in nil map'', \<lparr>rc_BaseDir = ''/cache'', rc_repos = None\<rparr>, [])
   \<and> rc_repos (snd (Load example_os example_json readonly_store
                      \<lparr>rc_BaseDir = ''/cache'', rc_repos = None\<rparr> [])) \<noteq> None"
proof -
  let ?c = "\<lparr>rc_BaseDir = ''/cache'', rc_repos = None\<rparr> :: action list repo_cache"
  have nil: "rc_repos ?c = None" by simp
  have read: "conf_Read readonly_store
      (filepath_Join example_os [rc_BaseDir ?c, CacheConfFile]) [] = Inr ''four entries''"
    by (simp add: readonly_store_def example_os_def example_Join_def CacheConfFile_def)
  have decoded: "json_Decode_CacheConfig example_json ''four entries''
      = Inr \<lparr>cc_Repos = Some (map_of example_entries)\<rparr>"
    by (simp add: example_json_def)
  from C10_Add_nil_map_panics[OF nil, of example_os example_json readonly_store "''site''"
      "example_git_repo None" "[]" ?c] read decoded
  show ?thesis by blast
qed

subsection \<open>Load\<close>

lemma Load_loop_result:
  "distinct (map fst entries) \<Longrightarrow>
   Load_loop os js baseDir entries repos errs =
     (loaded_repos os js baseDir (map_of entries) repos,
      errs @ List.map_filter (\<lambda>(name, h). entry_error js h) entries)"
proof (induction entries arbitrary: repos errs)
  case Nil
  then show ?case by (simp add: loaded_repos_def List.map_filter_simps)
next
  case (Cons e entries)
  obtain name h where e: "e = (name, h)" by (cases e)
  from Cons.prems e have fresh: "map_of entries name = None" and d: "distinct (map fst entries)"
    by (auto simp: map_of_eq_None_iff)
  note IH = Cons.IH[OF d]
  consider (git) "ph_Type h = GitRepoType"
    | (local) "ph_Type h \<noteq> GitRepoType" "ph_Type h = LocalRepoType"
    | (other) "ph_Type h \<noteq> GitRepoType" "ph_Type h \<noteq> LocalRepoType"
    by blast
  then show ?case
  proof cases
    case git
    obtain f err where u: "json_Unmarshal_GitRepo js (ph_Opaque h)
        \<lparr>gr_URL = [], gr_Protocol = [], gr_RepoName = [], gr_Remote = [], gr_Path = []\<rparr>
        = (f, err)"
      by (cases "json_Unmarshal_GitRepo js (ph_Opaque h)
        \<lparr>gr_URL = [], gr_Protocol = [], gr_RepoName = [], gr_Remote = [], gr_Path = []\<rparr>")
    show ?thesis
      unfolding e using git u
      by (cases err)
         (auto simp: IH List.map_filter_simps AggregatedError_Add_def RepoFactories_def
            GitRepoFactory_def entry_error_def entry_remote_def loaded_repos_def fresh fun_eq_iff
            GitRepoType_def LocalRepoType_def split: option.splits)
  next
    case local
    obtain l err where u: "json_Unmarshal_LocalRepo js (ph_Opaque h)
        \<lparr>lr_BaseDir = [], lr_Path = []\<rparr> = (l, err)"
      by (cases "json_Unmarshal_LocalRepo js (ph_Opaque h) \<lparr>lr_BaseDir = [], lr_Path = []\<rparr>")
    show ?thesis
      unfolding e using local u
      by (cases err)
         (auto simp: IH List.map_filter_simps AggregatedError_Add_def RepoFactories_def
            LocalRepoFactory_def entry_error_def entry_remote_def loaded_repos_def fresh fun_eq_iff
            split: option.splits)
  next
    case other
    show ?thesis
      unfolding e using other
      by (auto simp: IH List.map_filter_simps RepoFactories_def entry_error_def entry_remote_def
            loaded_repos_def fresh fun_eq_iff split: option.splits)
  qed
qed

lemma map_filter_Nil_iff: "List.map_filter f xs = [] \<longleftrightarrow> (\<forall>x \<in> set xs. f x = None)"
  by (induction xs) (auto simp: List.map_filter_simps split: option.splits)

text \<open>
  Claim C7: once the configuration is read and decoded, \<open>Load\<close> goes through every
  entry. The map it leaves holds, for every name whose handle resolves to a remote
  repository, the cached repository of that name with
  \<open>LocalDir = Join(BaseDir, "repos", name)\<close>, and holds for every other name what it held
  before: an entry of a type without a factory and an entry that is not a remote
  repository store nothing. The error returned is the aggregate of the factory errors
  of all entries, in the order of the iteration; it is nil exactly when no entry has a
  factory error, and an entry of a type without a factory has none. The hypothesis on
  \<open>range_Repos\<close> is that the iteration meets every key of the map once.
\<close>

theorem C7_Load_attempts_every_entry:
  assumes read: "conf_Read st (filepath_Join os [rc_BaseDir c, CacheConfFile]) w = Inr content"
      and decoded: "json_Decode_CacheConfig js content = Inr cfg"
      and handles: "cc_Repos cfg = Some handles"
      and range: "map_of (range_Repos js handles) = handles"
      and once: "distinct (map fst (range_Repos js handles))"
  shows "Load os js st c w =
      (AggregatedError_Aggregate
         (List.map_filter (\<lambda>(name, h). entry_error js h) (range_Repos js handles)),
       c\<lparr>rc_repos := Some (loaded_repos os js (rc_BaseDir c) handles
                              (case rc_repos c of None \<Rightarrow> Map.empty | Some m \<Rightarrow> m))\<rparr>)
    \<and> (fst (Load os js st c w) = None \<longleftrightarrow>
         (\<forall>name h. handles name = Some h \<longrightarrow> entry_error js h = None))
    \<and> (\<forall>h. ph_Type h \<noteq> GitRepoType \<and> ph_Type h \<noteq> LocalRepoType \<longrightarrow>
           entry_error js h = None)"
proof -
  have result: "Load os js st c w =
      (AggregatedError_Aggregate
         (List.map_filter (\<lambda>(name, h). entry_error js h) (range_Repos js handles)),
       c\<lparr>rc_repos := Some (loaded_repos os js (rc_BaseDir c) handles
                              (case rc_repos c of None \<Rightarrow> Map.empty | Some m \<Rightarrow> m))\<rparr>)"
    by (simp add: Load_def read decoded handles Load_loop_result[OF once] range)
  have "(\<forall>e \<in> set (range_Repos js handles). (\<lambda>(name, h). entry_error js h) e = None) \<longleftrightarrow>
      (\<forall>name h. handles name = Some h \<longrightarrow> entry_error js h = None)"
    using map_of_eq_Some_iff[OF once] range by fastforce
  then have nil: "fst (Load os js st c w) = None \<longleftrightarrow>
      (\<forall>name h. handles name = Some h \<longrightarrow> entry_error js h = None)"
    by (simp add: result AggregatedError_Aggregate_def map_filter_Nil_iff)
  show ?thesis
    using result nil by (simp add: entry_error_def)
qed

lemma example_entries_resolved:
  "loaded_repos example_os example_json ''/cache'' (map_of example_entries) Map.empty
     = [''site'' \<mapsto> example_cached_repo]"
  by (auto simp: loaded_repos_def example_entries_def entry_remote_def example_json_def
      example_Unmarshal_GitRepo_def example_git_json_def example_local_json_def
      example_cached_repo_def example_git_repo_def example_git_fields_def example_os_def
      example_Join_def CacheReposDir_def GitRepoType_def LocalRepoType_def fun_eq_iff)

theorem C7_Load_attempts_every_entry_witness:
  "Load example_os example_json readonly_store \<lparr>rc_BaseDir = ''/cache'', rc_repos = None\<rparr> [] =
     (Some (AggregatedError [ExternalError ''unexpected end of JSON input'']),
      \<lparr>rc_BaseDir = ''/cache'', rc_repos = Some [''site'' \<mapsto> example_cached_repo]\<rparr>)"
proof -
  let ?c = "\<lparr>rc_BaseDir = ''/cache'', rc_repos = None\<rparr> :: action list repo_cache"
  have read: "conf_Read readonly_store
      (filepath_Join example_os [rc_BaseDir ?c, CacheConfFile]) [] = Inr ''four entries''"
    by (simp add: readonly_store_def example_os_def example_Join_def CacheConfFile_def)
  have decoded: "json_Decode_CacheConfig example_json ''four entries''
      = Inr \<lparr>cc_Repos = Some (map_of example_entries)\<rparr>"
    by (simp add: example_json_def)
  have handles: "cc_Repos \<lparr>cc_Repos = Some (map_of example_entries)\<rparr> = Some (map_of example_entries)"
    by simp
  have range: "map_of (range_Repos example_json (map_of example_entries)) = map_of example_entries"
    by (simp add: example_json_def)
  have once: "distinct (map fst (range_Repos example_json (map_of example_entries)))"
    by (simp add: example_json_def example_entries_def)
  have errors: "List.map_filter (\<lambda>(name, h). entry_error example_json h)
      (range_Repos example_json (map_of example_entries))
      = [ExternalError ''unexpected end of JSON input'']"
    by (simp add: example_json_def example_entries_def List.map_filter_simps entry_error_def
        example_Unmarshal_GitRepo_def example_Unmarshal_LocalRepo_def example_git_json_def
        example_local_json_def GitRepoType_def LocalRepoType_def)
  from C7_Load_attempts_every_entry[OF read decoded handles range once]
  show ?thesis
    by (simp add: errors example_entries_resolved AggregatedError_Aggregate_def)
qed

section \<open>Properties of the walker\<close>

lemmas example_walk_defs = example_os_def example_tree_def example_Join_def
  recording_walker_def record_visit_def dir_entry_def file_entry_def LocalRepo_BasePath_def
  GitRepo_BasePath_def Visit_def fullPath_def

subsection \<open>Filters\<close>


lemma run_filters_pure:
  "pure_filters fs \<Longrightarrow>
   run_filters fs item w = (Accepted item, w) \<or> run_filters fs item w = (Rejected, w) \<or>
   (\<exists>e. run_filters fs item w = (Failed e, w))"
proof (induction fs)
  case Nil
  then show ?case by simp
next
  case (Cons f fs)
  then have p: "pure_filters fs" and "\<exists>accepted e. f item w = (((accepted, e), item), w)"
    by (auto simp: pure_filters_def)
  then obtain accepted e where f: "f item w = (((accepted, e), item), w)" by blast
  show ?case using Cons.IH[OF p] f by (cases e) auto
qed



subsection \<open>Breadth-first order\<close>






subsection \<open>The path recorded in an item\<close>

lemma visit_dirs_inv:
  assumes "\<And>d w. d \<in> set dirs \<Longrightarrow> I w \<Longrightarrow> I (snd (rec (filepath_Join os [basePath, d]) w))"
      and "I w"
  shows "I (snd (visit_dirs rec os basePath dirs w))"
  using assms
proof (induction dirs arbitrary: w)
  case Nil
  then show ?case by simp
next
  case (Cons d dirs)
  obtain r w' where r: "rec (filepath_Join os [basePath, d]) w = (r, w')"
    by (cases "rec (filepath_Join os [basePath, d]) w")
  have I': "I w'" using Cons.prems(1)[of d w] Cons.prems(2) r by simp
  have "I (snd (visit_dirs rec os basePath dirs w'))"
    using Cons.IH[of w'] Cons.prems(1) I' by simp
  then show ?case using r I' by (simp split: walk_result.splits option.splits)
qed

lemma visit_entries_inv:
  assumes pure: "pure_filters (rw_Filters wk)"
      and fn: "rw_WalkerFn wk = record_visit"
      and rec: "\<And>d w. d \<in> set dirs \<union> fi_Name ` set entries \<Longrightarrow> I w \<Longrightarrow>
                  I (snd (rec (filepath_Join os [basePath, d]) w))"
      and step: "\<And>fi w. fi \<in> set entries \<Longrightarrow> I w \<Longrightarrow> I (w @ [Visited basePath (fi_Name fi)])"
      and "I w"
  shows "I (snd (visit_entries rec os wk basePath name repo entries ending dirs w))"
  using rec step \<open>I w\<close>
proof (induction entries arbitrary: dirs w)
  case Nil
  then show ?case
    by (cases ending) (auto intro: visit_dirs_inv)
next
  case (Cons fi entries)
  let ?item = "\<lparr>wi_RepoName = name, wi_Repo = repo, wi_Path = basePath,
                  wi_Name = fi_Name fi, wi_FileInfo = fi\<rparr>"
  have rest: "I (snd (visit_entries rec os wk basePath name repo entries ending dirs2 w2))"
    if "set dirs2 \<subseteq> set dirs \<union> {fi_Name fi}" and "I w2" for dirs2 w2
  proof (rule Cons.IH)
    fix d w assume "d \<in> set dirs2 \<union> fi_Name ` set entries" and "I w"
    with that show "I (snd (rec (filepath_Join os [basePath, d]) w))"
      by (intro Cons.prems(1)) auto
  next
    fix fi' w assume "fi' \<in> set entries" and "I w"
    then show "I (w @ [Visited basePath (fi_Name fi')])"
      by (intro Cons.prems(2)) auto
  next
    show "I w2" by fact
  qed
  have rest1: "I (snd (visit_entries rec os wk basePath name repo entries ending dirs w2))"
    if "I w2" for w2
    using rest[of dirs w2] that by auto
  have rest2: "I (snd (visit_entries rec os wk basePath name repo entries ending
                        (dirs @ [fi_Name fi]) w2))"
    if "I w2" for w2
    using rest[of "dirs @ [fi_Name fi]" w2] that by auto
  have I2: "I (w @ [Visited basePath (fi_Name fi)])"
    using Cons.prems(2)[of fi w] Cons.prems(3) by simp
  consider (acc) "run_filters (rw_Filters wk) ?item w = (Accepted ?item, w)"
    | (rej) "run_filters (rw_Filters wk) ?item w = (Rejected, w)"
    | (fail) e where "run_filters (rw_Filters wk) ?item w = (Failed e, w)"
    using run_filters_pure[OF pure, of ?item w] by blast
  then show ?case
  proof cases
    case acc
    show ?thesis
    proof (cases "fi_IsDir fi")
      case False
      then show ?thesis using acc fn rest1[OF I2] by (simp add: record_visit_def)
    next
      case dir: True
      show ?thesis
      proof (cases "rw_BreadthFirst wk")
        case True
        then show ?thesis using acc fn dir rest2[OF I2]
          by (simp add: record_visit_def)
      next
        case False
        obtain r w' where r: "rec (filepath_Join os [basePath, fi_Name fi])
            (w @ [Visited basePath (fi_Name fi)]) = (r, w')"
          by (cases "rec (filepath_Join os [basePath, fi_Name fi])
            (w @ [Visited basePath (fi_Name fi)])")
        have I': "I w'"
          using Cons.prems(1)[of "fi_Name fi" "w @ [Visited basePath (fi_Name fi)]"] I2 r by simp
        show ?thesis using acc fn dir False r rest1[OF I'] I'
          by (simp add: record_visit_def split: walk_result.splits option.splits)
      qed
    qed
  next
    case rej
    then show ?thesis using rest1[OF Cons.prems(3)] by simp
  next
    case fail
    then show ?thesis using Cons.prems(3) by simp
  qed
qed

lemma visit_inv:
  fixes os :: "action list os_env"
  assumes pure: "pure_filters (rw_Filters wk)"
      and fn: "rw_WalkerFn wk = record_visit"
      and static: "\<forall>path w. os_Open os path w = os_Open os path []"
      and I: "\<And>w. I w = (\<forall>p n. Visited p n \<in> set w \<longrightarrow>
                (\<exists>names. p = descend os base names) \<and>
                (\<exists>entries ending. os_Open os (fullPath wk p) [] = Inr (entries, ending) \<and>
                   n \<in> fi_Name ` set entries))"
  shows "I w \<Longrightarrow> I (snd (visit fuel os wk (descend os base names) name repo w))"
proof (induction fuel arbitrary: names w)
  case 0
  then show ?case by simp
next
  case (Suc fuel)
  let ?bp = "descend os base names"
  show ?case
  proof (cases "os_Open os (fullPath wk ?bp) w")
    case (Inl e)
    then show ?thesis using Suc.prems by simp
  next
    case (Inr stream)
    obtain entries ending where st: "stream = (entries, ending)" by (cases stream)
    have opened: "os_Open os (fullPath wk ?bp) [] = Inr (entries, ending)"
      using Inr st static by metis
    have "I (snd (visit_entries (\<lambda>p. visit fuel os wk p name repo) os wk ?bp name repo
                    entries ending [] w))"
    proof (rule visit_entries_inv[OF pure fn])
      fix d w' assume "I w'"
      have "filepath_Join os [?bp, d] = descend os base (names @ [d])"
        by (simp add: descend_def)
      then show "I (snd (visit fuel os wk (filepath_Join os [?bp, d]) name repo w'))"
        using Suc.IH[OF \<open>I w'\<close>, of "names @ [d]"] by simp
    next
      fix fi w' assume "fi \<in> set entries" and "I w'"
      then show "I (w' @ [Visited ?bp (fi_Name fi)])"
        unfolding I using opened by auto
    next
      show "I w" by fact
    qed
    then show ?thesis using Inr st by simp
  qed
qed

lemma visit_dirs_os_Open:
  "visit_dirs rec (os\<lparr>os_Open := g\<rparr>) basePath dirs w = visit_dirs rec os basePath dirs w"
  by (induction dirs arbitrary: w)
     (simp_all cong: prod.case_cong walk_result.case_cong option.case_cong)

lemma visit_entries_os_Open:
  "visit_entries rec (os\<lparr>os_Open := g\<rparr>) (wk\<lparr>rw_PathPrefix := prefix\<rparr>) basePath name repo
     entries ending dirs w =
   visit_entries rec os wk basePath name repo entries ending dirs w"
  by (induction entries arbitrary: dirs w)
     (simp_all add: visit_dirs_os_Open
        cong: prod.case_cong walk_result.case_cong option.case_cong filter_verdict.case_cong
              if_cong)

text \<open>
  The prefix has one use, the path handed to \<open>os.Open\<close>: a walk with a prefix is the walk
  without prefix over the file system read through the prefix, for every walker
  function and all filters.
\<close>

lemma visit_PathPrefix_only_in_open:
  "visit fuel os wk basePath name repo w =
   visit fuel (os\<lparr>os_Open := \<lambda>path. os_Open os (fullPath wk path)\<rparr>) (wk\<lparr>rw_PathPrefix := []\<rparr>)
     basePath name repo w"
proof (induction fuel arbitrary: basePath w)
  case 0
  then show ?case by simp
next
  case (Suc fuel)
  have rec: "(\<lambda>p. visit fuel (os\<lparr>os_Open := \<lambda>path. os_Open os (fullPath wk path)\<rparr>)
              (wk\<lparr>rw_PathPrefix := []\<rparr>) p name repo) = (\<lambda>p. visit fuel os wk p name repo)"
    using Suc.IH by (intro ext) simp
  have fp: "fullPath (wk\<lparr>rw_PathPrefix := []\<rparr>) basePath = basePath"
    by (simp add: fullPath_def)
  show ?case
    by (simp only: visit.simps rec fp visit_entries_os_Open) simp
qed

text \<open>
  What a walk records. Take a walk that records its visits, with filters that only
  decide, over a directory tree that does not change. Then the \<open>Path\<close> of every item
  visited is the value of \<open>BasePath()\<close>, joined with the names of the directories that
  lead from there to the directory of the entry, and the entry was read from the
  directory opened at \<open>PathPrefix\<close> followed by that \<open>Path\<close>. Whether the recorded path
  is a path inside the repository therefore rests on what \<open>BasePath()\<close> returns.
\<close>

lemma recorded_path_starts_at_BasePath:
  "(pure_filters (rw_Filters wk) \<and> rw_WalkerFn wk = record_visit \<and>
    (\<forall>path w. os_Open os path w = os_Open os path []) \<longrightarrow>
    (\<forall>p n. Visited p n \<in> set (snd (Visit fuel os wk name repo [])) \<longrightarrow>
       (\<exists>names. p = descend os (BasePath os repo) names) \<and>
       (\<exists>entries ending. os_Open os (fullPath wk p) [] = Inr (entries, ending) \<and>
          n \<in> fi_Name ` set entries)))
   \<and> Visit fuel' os' wk' name' repo' w' =
       visit fuel' (os'\<lparr>os_Open := \<lambda>path. os_Open os' (fullPath wk' path)\<rparr>)
         (wk'\<lparr>rw_PathPrefix := []\<rparr>) (BasePath os' repo') name' repo' w'"
proof (intro conjI impI)
  assume a: "pure_filters (rw_Filters wk) \<and> rw_WalkerFn wk = record_visit \<and>
    (\<forall>path w. os_Open os path w = os_Open os path [])"
  define I where "I w = (\<forall>p n. Visited p n \<in> set w \<longrightarrow>
       (\<exists>names. p = descend os (BasePath os repo) names) \<and>
       (\<exists>entries ending. os_Open os (fullPath wk p) [] = Inr (entries, ending) \<and>
          n \<in> fi_Name ` set entries))" for w
  have "I []" by (simp add: I_def)
  then have "I (snd (visit fuel os wk (descend os (BasePath os repo) []) name repo []))"
    using a by (intro visit_inv[where I = I and base = "BasePath os repo"]) (auto simp: I_def)
  then show "\<forall>p n. Visited p n \<in> set (snd (Visit fuel os wk name repo [])) \<longrightarrow>
       (\<exists>names. p = descend os (BasePath os repo) names) \<and>
       (\<exists>entries ending. os_Open os (fullPath wk p) [] = Inr (entries, ending) \<and>
          n \<in> fi_Name ` set entries)"
    by (simp add: I_def Visit_def descend_def)
next
  show "Visit fuel' os' wk' name' repo' w' =
       visit fuel' (os'\<lparr>os_Open := \<lambda>path. os_Open os' (fullPath wk' path)\<rparr>)
         (wk'\<lparr>rw_PathPrefix := []\<rparr>) (BasePath os' repo') name' repo' w'"
    unfolding Visit_def by (rule visit_PathPrefix_only_in_open)
qed

text \<open>
  For a git repository \<open>BasePath()\<close> is the path inside the repository. In the example
  its clone lies under \<open>/site\<close>, given as the prefix, and the base path is \<open>/docs\<close>: the
  directories opened are \<open>/site/docs\<close> and \<open>/site/docs/guide\<close>, the paths recorded are
  \<open>/docs\<close> and \<open>/docs/guide\<close>.
\<close>

lemma recorded_path_git_example:
  "snd (Visit 3 example_os ((recording_walker False)\<lparr>rw_PathPrefix := ''/site''\<rparr>) ''site''
          (GitRepo (example_git_repo None)) [])
     = [Visited ''/docs'' ''guide'', Visited ''/docs/guide'' ''intro.md'']
   \<and> (\<exists>names. ''/docs/guide''
         = descend example_os (BasePath example_os (GitRepo (example_git_repo None))) names)
   \<and> (\<exists>entries ending.
         os_Open example_os
           (fullPath ((recording_walker False)\<lparr>rw_PathPrefix := ''/site''\<rparr>) ''/docs/guide'') []
           = Inr (entries, ending) \<and>
         ''intro.md'' \<in> fi_Name ` set entries)"
proof -
  let ?wk = "(recording_walker False)\<lparr>rw_PathPrefix := ''/site''\<rparr>"
  let ?repo = "GitRepo (example_git_repo None)"
  have trace: "snd (Visit 3 example_os ?wk ''site'' ?repo [])
     = [Visited ''/docs'' ''guide'', Visited ''/docs/guide'' ''intro.md'']"
    by (simp add: example_walk_defs example_git_repo_def eval_nat_numeral)
  have hyps: "pure_filters (rw_Filters ?wk) \<and> rw_WalkerFn ?wk = record_visit \<and>
    (\<forall>path w. os_Open example_os path w = os_Open example_os path [])"
    by (simp add: pure_filters_def recording_walker_def example_os_def example_tree_def)
  have visited: "Visited ''/docs/guide'' ''intro.md''
      \<in> set (snd (Visit 3 example_os ?wk ''site'' ?repo []))"
    by (simp add: trace)
  have "(\<exists>names. ''/docs/guide'' = descend example_os (BasePath example_os ?repo) names) \<and>
       (\<exists>entries ending. os_Open example_os (fullPath ?wk ''/docs/guide'') [] = Inr (entries, ending) \<and>
          ''intro.md'' \<in> fi_Name ` set entries)"
    by (rule recorded_path_starts_at_BasePath[of ?wk example_os 3 "''site''" ?repo,
          THEN conjunct1, rule_format, OF hyps visited])
  with trace show ?thesis by (intro conjI) simp_all
qed

text \<open>
  Claim C8: the \<open>Path\<close> of an item is the directory that contains the entry, expressed
  relative to the base path of the repository (the comment on the field: the relative
  path inside the repo, without the file name), and \<open>PathPrefix\<close> goes into the path
  that is opened, never into \<open>Path\<close>.

  The code keeps the second half (\<open>visit_PathPrefix_only_in_open\<close>) and breaks the
  first. \<open>Visit\<close> starts at \<open>BasePath()\<close> and records the path it walks; for a
  \<open>LocalRepo\<close>, \<open>BasePath()\<close> is \<open>Join(BaseDir, Path)\<close>, the path in the file system.
  For the local repository with the root \<open>/site\<close> and the path \<open>docs\<close>, the file
  \<open>intro.md\<close> in the directory \<open>/site/docs/guide\<close> is visited with the path
  \<open>/site/docs/guide\<close>. That is the whole path of the directory: relative to the base
  path the directory is \<open>guide\<close>, relative to the root of the repository it is
  \<open>docs/guide\<close>.
\<close>

theorem C8_LocalRepo_item_path_is_not_relative:
  "BasePath example_os (LocalRepo example_local_repo) = ''/site/docs''
   \<and> snd (Visit 3 example_os (recording_walker False) ''site'' (LocalRepo example_local_repo) [])
     = [Visited ''/site/docs'' ''guide'', Visited ''/site/docs/guide'' ''intro.md'']
   \<and> \<not> path_relative_to_base example_os ''/site/docs'' ''/site/docs/guide'' ''/site/docs/guide''
   \<and> path_relative_to_base example_os ''/site/docs'' ''/site/docs/guide'' ''guide''
   \<and> \<not> path_relative_to_base example_os ''/site'' ''/site/docs/guide'' ''/site/docs/guide''
   \<and> path_relative_to_base example_os ''/site'' ''/site/docs/guide'' ''docs/guide''"
  by (simp add: example_walk_defs example_local_repo_def path_relative_to_base_def
      eval_nat_numeral)

end
